theory Spec2Isabelle
  imports Complex_Main
begin

section \<open>Data model of absmap.py\<close>

text \<open>
  Python floats are modelled as exact reals: timestamps (seconds), thresholds, velocities
  and clock readings are \<open>real\<close>, rounding is not modelled. Axis values are Python ints,
  modelled as \<open>int\<close>. A float division whose divisor is zero raises ZeroDivisionError
  in Python; the model returns that error as a value wherever the source does not guard
  the divisor.
\<close>

datatype py_error = ZeroDivisionError

text \<open>The strings \<open>'up'\<close> and \<open>'down'\<close> returned by \<open>detect_gesture\<close>.\<close>

datatype gesture = Up | Down

type_synonym sample = "real \<times> int"

text \<open>
  The attributes of a \<open>VelocityTracker\<close>. \<open>velocity\<close> and \<open>acceleration\<close> are not
  assigned by \<open>__init__\<close>; \<open>None\<close> stands for an attribute that does not exist yet.
\<close>

record tracker =
  velocity_threshold :: real
  acceleration_enabled :: bool
  history :: "sample list"
  max_history :: int
  velocity :: "real option"
  acceleration :: "real option"

text \<open>\<open>VelocityTracker.__init__\<close>\<close>

definition VelocityTracker :: "real \<Rightarrow> bool \<Rightarrow> int \<Rightarrow> tracker" where
  "VelocityTracker velocity_threshold' acceleration_enabled' history_size =
     \<lparr> velocity_threshold = velocity_threshold',
       acceleration_enabled = acceleration_enabled',
       history = [],
       max_history = history_size,
       velocity = None,
       acceleration = None \<rparr>"

section \<open>The tracker's methods\<close>

text \<open>\<open>clear\<close>: \<open>self.history.clear()\<close>\<close>

definition clear :: "tracker \<Rightarrow> tracker" where
  "clear t = t\<lparr>history := []\<rparr>"

text \<open>
  \<open>add_sample\<close>: value 0 clears and returns; otherwise the sample is appended and, when
  the length then exceeds \<open>max_history\<close>, \<open>pop(0)\<close> removes the head once (the list is
  not empty there, it holds the sample just appended).
\<close>

definition add_sample :: "tracker \<Rightarrow> real \<Rightarrow> int \<Rightarrow> tracker" where
  "add_sample t timestamp val =
     (if val = 0 then clear t
      else
        let h = history t @ [(timestamp, val)]
        in if int (length h) > max_history t then t\<lparr>history := tl h\<rparr>
           else t\<lparr>history := h\<rparr>)"

text \<open>
  \<open>get_velocity\<close>: the reads \<open>history[0]\<close> and \<open>history[-1]\<close> happen with at least two
  samples, and the division with \<open>dt \<noteq> 0\<close>, so the method cannot raise.
\<close>

definition get_velocity :: "tracker \<Rightarrow> real" where
  "get_velocity t =
     (if length (history t) < 2 then 0
      else
        let (t1, v1) = hd (history t);
            (t2, v2) = last (history t);
            dt = t2 - t1
        in if dt = 0 then 0
           else
             let dv = v2 - v1
             in real_of_int dv / dt)"

text \<open>
  \<open>get_acceleration\<close>: \<open>dt1\<close> and \<open>dt2\<close> are guarded, the last divisor
  \<open>(dt1 + dt2) / 2\<close> is not: where it is zero the float division raises. The model
  raises where the exact sum is zero; in floating point the sum can also round to zero
  (timestamps 0.0, 1.0 and \<open>2 ** -60\<close>), so the code raises on every input on which the
  model does, and on some more. A statement below in which the estimate returns on three
  or more samples is about the exact sum.
\<close>

definition get_acceleration :: "tracker \<Rightarrow> py_error + real" where
  "get_acceleration t =
     (if \<not> acceleration_enabled t \<or> length (history t) < 3 then Inr 0
      else
        let (t1, v1) = history t ! 0;
            (t2, v2) = history t ! (length (history t) div 2);
            (t3, v3) = last (history t);
            dt1 = t2 - t1;
            dt2 = t3 - t2
        in if dt1 = 0 \<or> dt2 = 0 then Inr 0
           else
             let vel1 = real_of_int (v2 - v1) / dt1;
                 vel2 = real_of_int (v3 - v2) / dt2
             in if (dt1 + dt2) / 2 = 0 then Inl ZeroDivisionError
                else Inr ((vel2 - vel1) / ((dt1 + dt2) / 2)))"

text \<open>
  \<open>detect_gesture\<close> returns the gesture (or the exception that left the method) and
  the tracker with the attributes it assigned on the way.
\<close>

definition detect_gesture :: "tracker \<Rightarrow> (py_error + gesture option) \<times> tracker" where
  "detect_gesture t =
     (if length (history t) < 2 then (Inr None, t)
      else
        let velocity' = get_velocity t;
            ta = t\<lparr>velocity := Some velocity'\<rparr>;
            abs_velocity = \<bar>velocity'\<bar>
        in if abs_velocity < velocity_threshold ta
           then (Inr None, ta\<lparr>acceleration := Some 0\<rparr>)
           else
             case (if acceleration_enabled ta then
                     (case get_acceleration ta of
                        Inl e \<Rightarrow> Inl e
                      | Inr accel \<Rightarrow>
                          Inr (if velocity' > 0 \<and> accel < 0 then 1.5
                               else if velocity' < 0 \<and> accel > 0 then 1.5
                               else if velocity' > 0 \<and> accel > 0 then 0.7
                               else if velocity' < 0 \<and> accel < 0 then 0.7
                               else 1.0,
                               ta\<lparr>acceleration := Some accel\<rparr>))
                   else Inr (1.0, ta\<lparr>acceleration := Some 0\<rparr>)) of
               Inl e \<Rightarrow> (Inl e, ta)
             | Inr (multiplier, tb) \<Rightarrow>
                 let threshold = velocity_threshold tb * multiplier
                 in if abs_velocity < threshold then (Inr None, tb)
                    else (Inr (Some (if velocity' > 0 then Up else Down)), tb))"

text \<open>A method call on a tracker, what it returns, and the tracker it leaves.\<close>

datatype call = Add_sample real int | Get_velocity | Get_acceleration | Detect_gesture | Clear

datatype retval = Returned_None | Returned_float real | Returned_gesture gesture | Raised py_error

fun invoke :: "tracker \<Rightarrow> call \<Rightarrow> retval \<times> tracker" where
  "invoke t (Add_sample timestamp val) = (Returned_None, add_sample t timestamp val)"
| "invoke t Get_velocity = (Returned_float (get_velocity t), t)"
| "invoke t Get_acceleration =
     (case get_acceleration t of Inl e \<Rightarrow> (Raised e, t) | Inr a \<Rightarrow> (Returned_float a, t))"
| "invoke t Detect_gesture =
     (case detect_gesture t of
        (Inl e, t') \<Rightarrow> (Raised e, t')
      | (Inr None, t') \<Rightarrow> (Returned_None, t')
      | (Inr (Some g), t') \<Rightarrow> (Returned_gesture g, t'))"
| "invoke t Clear = (Returned_None, clear t)"

text \<open>A sequence of calls on one tracker (a caller that catches what a call raises).\<close>

fun invoke_all :: "tracker \<Rightarrow> call list \<Rightarrow> tracker" where
  "invoke_all t [] = t"
| "invoke_all t (c # cs) = invoke_all (snd (invoke t c)) cs"

section \<open>The event loop of main\<close>

text \<open>
  An action of the configuration: \<open>{keys: ...}\<close>, \<open>{command: ...}\<close>, or any other
  truthy value, which \<open>execute_action\<close> reports as invalid. A gesture's configuration
  holds its action; \<open>None\<close> stands for an action that is missing or falsy
  (\<open>gesture_config.get('action')\<close> followed by \<open>if action\<close>).
\<close>

datatype action = Keys "string list" | Command string | Invalid_action

record gesture_config =
  action :: "action option"

record config =
  axis_code :: int
  cooldown_ms :: real
  key_delay_ms :: real
  gestures :: "gesture \<rightharpoonup> gesture_config"

text \<open>
  \<open>validate_config\<close>, the part on gestures: a configured gesture without a usable action
  is an error, and main exits before the loop when the list is not empty.
\<close>

datatype config_error = Missing_action gesture

definition validate_config :: "config \<Rightarrow> config_error list" where
  "validate_config cfg =
     (case gestures cfg Up of
        None \<Rightarrow> []
      | Some gc \<Rightarrow> (if action gc = None then [Missing_action Up] else []))
     @
     (case gestures cfg Down of
        None \<Rightarrow> []
      | Some gc \<Rightarrow> (if action gc = None then [Missing_action Down] else []))"

text \<open>
  One input of the loop: the event read from the device, and the reading \<open>time.time()\<close>
  gives during that iteration (seconds).
\<close>

record event =
  ev_type :: int
  ev_code :: int
  ev_value :: int
  ev_timestamp :: real

definition EV_ABS :: int where
  "EV_ABS = 3"

text \<open>
  The loop's variables: the tracker, \<open>last_gesture_time\<close>, and the calls of
  \<open>execute_action\<close> made so far (gesture, action, time in ms), oldest first.
  \<open>execute_action\<close> catches what the key emitter or the command raises.
\<close>

record loop_state =
  tracker :: tracker
  last_gesture_time :: real
  executed :: "(gesture \<times> action \<times> real) list"


text \<open>
  The body of \<open>for event in device.read_loop()\<close>. The second component is the exception
  that leaves the loop, if any.
\<close>

definition loop_body :: "config \<Rightarrow> loop_state \<Rightarrow> event \<times> real \<Rightarrow> loop_state \<times> py_error option" where
  "loop_body cfg s inp =
     (let (ev, clock) = inp
      in if ev_type ev = EV_ABS \<and> ev_code ev = axis_code cfg then
           let val = ev_value ev;
               timestamp = ev_timestamp ev;
               tr = add_sample (tracker s) timestamp val
           in case detect_gesture tr of
                (Inl e, tr') \<Rightarrow> (s\<lparr>tracker := tr'\<rparr>, Some e)
              | (Inr None, tr') \<Rightarrow> (s\<lparr>tracker := tr'\<rparr>, None)
              | (Inr (Some g), tr') \<Rightarrow>
                  let current_time = clock * 1000
                  in if current_time - last_gesture_time s < cooldown_ms cfg
                     then (s\<lparr>tracker := tr'\<rparr>, None)
                     else
                       (case gestures cfg g of
                          None \<Rightarrow> (s\<lparr>tracker := tr'\<rparr>, None)
                        | Some gesture_config' \<Rightarrow>
                            (case action gesture_config' of
                               None \<Rightarrow>
                                 (s\<lparr>tracker := tr', last_gesture_time := current_time\<rparr>, None)
                             | Some a \<Rightarrow>
                                 (s\<lparr>tracker := clear tr',
                                    last_gesture_time := current_time,
                                    executed := executed s @ [(g, a, current_time)]\<rparr>, None)))
         else (s, None))"

fun read_loop :: "config \<Rightarrow> loop_state \<Rightarrow> (event \<times> real) list \<Rightarrow> loop_state \<times> py_error option" where
  "read_loop cfg s [] = (s, None)"
| "read_loop cfg s (inp # inps) =
     (case loop_body cfg s inp of
        (s', Some e) \<Rightarrow> (s', Some e)
      | (s', None) \<Rightarrow> read_loop cfg s' inps)"

section \<open>The decision procedure of the specification\<close>

text \<open>
  The classifier as the specification words it (section 4.3), over the number of samples,
  the base threshold, whether acceleration tracking is enabled, the velocity and the
  acceleration: multiplier 1.5 for strictly opposite signs, 0.7 for strictly equal signs,
  1.0 otherwise or when tracking is disabled.
\<close>

definition spec_multiplier :: "bool \<Rightarrow> real \<Rightarrow> real \<Rightarrow> real" where
  "spec_multiplier enabled v a =
     (if enabled \<and> ((v > 0 \<and> a < 0) \<or> (v < 0 \<and> a > 0)) then 1.5
      else if enabled \<and> ((v > 0 \<and> a > 0) \<or> (v < 0 \<and> a < 0)) then 0.7
      else 1.0)"

definition spec_decision :: "nat \<Rightarrow> real \<Rightarrow> bool \<Rightarrow> real \<Rightarrow> real \<Rightarrow> gesture option" where
  "spec_decision n thr enabled v a =
     (if n < 2 then None
      else if \<bar>v\<bar> < thr then None
      else if \<bar>v\<bar> < thr * spec_multiplier enabled v a then None
      else Some (if v > 0 then Up else Down))"

section \<open>Trackers used as concrete inputs\<close>

text \<open>Threshold 3.0, acceleration enabled; velocity 2.5 and acceleration 3.\<close>

definition rising :: tracker where
  "rising = (VelocityTracker 3 True 5)\<lparr>history := [(0, 1), (1, 2), (2, 6)]\<rparr>"

text \<open>Three samples whose last timestamp equals the first (the clock stepped back).\<close>

definition backwards :: tracker where
  "backwards =
     invoke_all (VelocityTracker 3 True 5) [Add_sample 1 1, Add_sample 2 2, Add_sample 1 3]"

text \<open>The same samples on a tracker with threshold 0.\<close>

definition stalled :: tracker where
  "stalled =
     invoke_all (VelocityTracker 0 True 5) [Add_sample 1 1, Add_sample 2 2, Add_sample 1 3]"

text \<open>Threshold 3.0, acceleration enabled; velocity 4 and acceleration -6.\<close>

definition slowing :: tracker where
  "slowing = (VelocityTracker 3 True 5)\<lparr>history := [(0, 1), (1, 8), (2, 9)]\<rparr>"

text \<open>A gesture was classified, then a sample of value 0 (a lift) cleared the buffer.\<close>

definition lifted :: tracker where
  "lifted =
     invoke_all (VelocityTracker 3 False 5)
       [Add_sample 0 10, Add_sample 1 20, Detect_gesture, Add_sample 2 0]"

text \<open>The buffer invariant: within capacity, and no stored value is 0.\<close>

definition buffer_ok :: "tracker \<Rightarrow> bool" where
  "buffer_ok t \<longleftrightarrow>
     int (length (history t)) \<le> max_history t \<and> (\<forall>s \<in> set (history t). snd s \<noteq> 0)"

text \<open>
  The cooldown invariant of the loop: no logged call is later than \<open>last_gesture_time\<close>,
  and any two logged calls are at least \<open>c\<close> apart.
\<close>

definition gate_inv :: "real \<Rightarrow> loop_state \<Rightarrow> bool" where
  "gate_inv c s \<longleftrightarrow>
     (\<forall>d \<in> set (executed s). snd (snd d) \<le> last_gesture_time s)
     \<and> sorted_wrt (\<lambda>a b. c \<le> snd (snd b) - snd (snd a)) (executed s)"

section \<open>A concrete configuration and concrete events\<close>

text \<open>\<open>ecodes.ABS_WHEEL\<close>\<close>

definition ABS_WHEEL :: int where
  "ABS_WHEEL = 8"

text \<open>Default cooldown and key delay; an action is bound to \<open>up\<close> only.\<close>

definition up_only :: config where
  "up_only = \<lparr> axis_code = ABS_WHEEL, cooldown_ms = 300, key_delay_ms = 5,
               gestures = [Up \<mapsto> \<lparr> action = Some (Keys [''KEY_UP'']) \<rparr>] \<rparr>"


text \<open>
  An event of the configured axis with timestamp \<open>ts\<close> (seconds), handled at once: the
  clock reads \<open>ts\<close> too.
\<close>

definition axis_event :: "real \<Rightarrow> int \<Rightarrow> event \<times> real" where
  "axis_event ts v =
     (\<lparr> ev_type = EV_ABS, ev_code = ABS_WHEEL, ev_value = v, ev_timestamp = ts \<rparr>, ts)"

text \<open>A rise from value 0 to 50 over five samples 10 ms apart, starting at \<open>t0\<close>.\<close>

definition rise :: "real \<Rightarrow> (event \<times> real) list" where
  "rise t0 = [axis_event t0 0, axis_event (t0 + 0.01) 12, axis_event (t0 + 0.02) 25,
              axis_event (t0 + 0.03) 37, axis_event (t0 + 0.04) 50]"

text \<open>
  A loop state that holds one sample, so that the next sample can qualify, with
  \<open>last_gesture_time = lg\<close>.
\<close>

definition primed :: "real \<Rightarrow> loop_state" where
  "primed lg = \<lparr> tracker = (VelocityTracker 3 False 5)\<lparr>history := [(999.99, 10)]\<rparr>,
                  last_gesture_time = lg, executed = [] \<rparr>"

section \<open>Velocity and acceleration estimates\<close>

lemma get_velocity_velocity_update [simp]:
  "get_velocity (t\<lparr>velocity := x\<rparr>) = get_velocity t"
  by (simp add: get_velocity_def)

lemma get_acceleration_velocity_update [simp]:
  "get_acceleration (t\<lparr>velocity := x\<rparr>) = get_acceleration t"
  by (simp add: get_acceleration_def)

lemma get_acceleration_disabled:
  "\<not> acceleration_enabled t \<Longrightarrow> get_acceleration t = Inr 0"
  by (simp add: get_acceleration_def)

lemma get_acceleration_short:
  "length (history t) < 3 \<Longrightarrow> get_acceleration t = Inr 0"
  by (simp add: get_acceleration_def)

text \<open>
  C4. \<open>get_velocity\<close> is 0 with fewer than two samples or with equal first and last
  timestamps, and otherwise the difference of the last and first values over the
  difference of their timestamps; the samples between the first and the last play no
  part; \<open>(0, 10), (2, 20)\<close> gives 5 and \<open>(0, 10), (1, 10)\<close> gives 0.
\<close>

theorem get_velocity_endpoints:
  "get_velocity t =
     (if length (history t) < 2 \<or> fst (last (history t)) - fst (hd (history t)) = 0 then 0
      else real_of_int (snd (last (history t)) - snd (hd (history t)))
             / (fst (last (history t)) - fst (hd (history t))))
   \<and> get_velocity (t\<lparr>history := x # xs @ [y]\<rparr>) = get_velocity (t\<lparr>history := [x, y]\<rparr>)
   \<and> get_velocity (t\<lparr>history := [(0, 10), (2, 20)]\<rparr>) = 5
   \<and> get_velocity (t\<lparr>history := [(0, 10), (1, 10)]\<rparr>) = 0"
  by (simp add: get_velocity_def Let_def split: prod.splits)

text \<open>
  What \<open>get_acceleration\<close> returns wherever its last divisor is not zero: 0 when
  disabled, with fewer than three samples or with an empty sub-interval, and otherwise
  the change of the two average velocities over the mean duration.
\<close>

lemma get_acceleration_checkpoints:
  assumes "history t ! 0 = (t1, v1)"
    and "history t ! (length (history t) div 2) = (t2, v2)"
    and "last (history t) = (t3, v3)"
    and "(t2 - t1) + (t3 - t2) \<noteq> 0"
  shows "get_acceleration t =
     Inr (if \<not> acceleration_enabled t \<or> length (history t) < 3 then 0
          else if t2 - t1 = 0 \<or> t3 - t2 = 0 then 0
          else (real_of_int (v3 - v2) / (t3 - t2) - real_of_int (v2 - v1) / (t2 - t1))
                 / (((t2 - t1) + (t3 - t2)) / 2))"
  using assms by (simp add: get_acceleration_def Let_def)

lemma backwards_eq:
  "backwards = (VelocityTracker 3 True 5)\<lparr>history := [(1, 1), (2, 2), (1, 3)]\<rparr>"
  by (simp add: backwards_def VelocityTracker_def add_sample_def)

text \<open>
  C5. After the samples \<open>(1, 1), (2, 2), (1, 3)\<close>, with acceleration enabled, both
  sub-intervals have a non-zero duration (1 and -1) and their mean is 0:
  \<open>get_acceleration\<close> raises ZeroDivisionError instead of returning a value.
\<close>

theorem get_acceleration_backwards_raises:
  "history backwards = [(1, 1), (2, 2), (1, 3)] \<and> acceleration_enabled backwards
   \<and> get_acceleration backwards = Inl ZeroDivisionError"
  by (simp add: backwards_eq) (simp add: VelocityTracker_def get_acceleration_def)

theorem get_acceleration_backwards_raises_witness:
  "acceleration_enabled backwards \<and> \<not> length (history backwards) < 3
   \<and> fst (history backwards ! 1) - fst (history backwards ! 0) \<noteq> 0
   \<and> fst (last (history backwards)) - fst (history backwards ! 1) \<noteq> 0
   \<and> get_acceleration backwards = Inl ZeroDivisionError"
  using get_acceleration_backwards_raises by simp

section \<open>Classification\<close>

text \<open>
  \<open>detect_gesture\<close> returns None with fewer than 2 samples or below the base
  threshold; otherwise it raises what the acceleration estimate raises, or returns what
  the decision procedure of the specification gives on the estimate.
\<close>

lemma detect_gesture_fst:
  "fst (detect_gesture t) =
     (if length (history t) < 2 \<or> \<bar>get_velocity t\<bar> < velocity_threshold t then Inr None
      else case get_acceleration t of
             Inl e \<Rightarrow> Inl e
           | Inr a \<Rightarrow>
               Inr (spec_decision (length (history t)) (velocity_threshold t)
                      (acceleration_enabled t) (get_velocity t) a))"
  by (auto simp add: detect_gesture_def Let_def spec_decision_def spec_multiplier_def
        get_acceleration_disabled split: sum.splits)

lemma stalled_eq:
  "stalled = (VelocityTracker 0 True 5)\<lparr>history := [(1, 1), (2, 2), (1, 3)]\<rparr>"
  by (simp add: stalled_def VelocityTracker_def add_sample_def)

text \<open>
  C1. With threshold 0 and acceleration enabled, after the samples
  \<open>(1, 1), (2, 2), (1, 3)\<close>: the velocity is 0, which is not below the threshold; the
  decision procedure of the specification gives Down whatever the acceleration; and
  \<open>detect_gesture\<close> returns nothing, it raises the ZeroDivisionError of
  \<open>get_acceleration\<close>.
\<close>

theorem detect_gesture_stalled_raises:
  "velocity_threshold stalled = 0 \<and> acceleration_enabled stalled
   \<and> history stalled = [(1, 1), (2, 2), (1, 3)]
   \<and> get_velocity stalled = 0
   \<and> fst (detect_gesture stalled) = Inl ZeroDivisionError
   \<and> (\<forall>a. spec_decision (length (history stalled)) (velocity_threshold stalled)
              (acceleration_enabled stalled) (get_velocity stalled) a = Some Down)"
  by (simp add: stalled_eq)
     (simp add: VelocityTracker_def get_velocity_def get_acceleration_def detect_gesture_def
        spec_decision_def spec_multiplier_def)

theorem detect_gesture_stalled_raises_witness:
  "\<not> length (history stalled) < 2
   \<and> \<not> \<bar>get_velocity stalled\<bar> < velocity_threshold stalled
   \<and> acceleration_enabled stalled \<and> \<not> length (history stalled) < 3
   \<and> fst (detect_gesture stalled) = Inl ZeroDivisionError"
  using detect_gesture_stalled_raises by simp

lemma rising_velocity: "get_velocity rising = 2.5"
  by (simp add: rising_def VelocityTracker_def get_velocity_def)

lemma rising_acceleration: "get_acceleration rising = Inr 3"
  by (simp add: rising_def VelocityTracker_def get_acceleration_def)

text \<open>
  In the accelerating cases (velocity and acceleration of the same strict sign) and with
  a threshold that is not negative, the result is the one of the base threshold alone:
  the multiplier 0.7 never changes it.
\<close>

lemma accelerating_multiplier_without_effect:
  assumes "0 \<le> velocity_threshold t" and "get_acceleration t = Inr a"
    and "(get_velocity t > 0 \<and> a > 0) \<or> (get_velocity t < 0 \<and> a < 0)"
  shows "fst (detect_gesture t) =
     (if length (history t) < 2 \<or> \<bar>get_velocity t\<bar> < velocity_threshold t then Inr None
      else Inr (Some (if get_velocity t > 0 then Up else Down)))"
proof -
  have "\<not> \<bar>get_velocity t\<bar> < velocity_threshold t * 0.7"
    if "\<not> \<bar>get_velocity t\<bar> < velocity_threshold t"
    using that assms(1) by (simp add: mult_le_cancel_left1 not_less)
  with assms show ?thesis
    by (auto simp add: detect_gesture_fst spec_decision_def spec_multiplier_def)
qed

text \<open>
  The multiplier 1.5 does change results: velocity 4 passes the base threshold 3.0 and,
  decelerating, fails 1.5 times it.
\<close>

lemma slowing_none:
  "get_velocity slowing = 4 \<and> get_acceleration slowing = Inr (- 6)
   \<and> \<not> \<bar>get_velocity slowing\<bar> < velocity_threshold slowing
   \<and> fst (detect_gesture slowing) = Inr None"
  by (simp add: slowing_def VelocityTracker_def get_velocity_def get_acceleration_def
        detect_gesture_def)

text \<open>
  C2. With threshold 3.0 and acceleration enabled, on a buffer with velocity 2.5 and a
  positive acceleration, the velocity clears 0.7 times the threshold and
  \<open>detect_gesture\<close> returns None, not Up: the comparison with the base threshold
  returns before the multiplier is computed.
\<close>

theorem rising_not_up:
  "velocity_threshold rising = 3 \<and> acceleration_enabled rising
   \<and> get_velocity rising = 2.5 \<and> get_acceleration rising = Inr 3
   \<and> 3 * 0.7 \<le> get_velocity rising
   \<and> fst (detect_gesture rising) = Inr None
   \<and> fst (detect_gesture rising) \<noteq> Inr (Some Up)"
  by (simp add: rising_velocity rising_acceleration detect_gesture_fst)
     (simp add: rising_def VelocityTracker_def)

theorem rising_not_up_witness:
  "\<not> length (history rising) < 2
   \<and> \<bar>get_velocity rising\<bar> < velocity_threshold rising
   \<and> acceleration_enabled rising \<and> get_velocity rising > 0
   \<and> fst (detect_gesture rising) = Inr None"
  using rising_not_up by (simp add: rising_def VelocityTracker_def)

text \<open>
  With at least two samples \<open>detect_gesture\<close> assigns both attributes whenever it
  returns.
\<close>

lemma detect_gesture_assigns:
  assumes "2 \<le> length (history t)" and "detect_gesture t = (Inr g, t')"
  shows "velocity t' = Some (get_velocity t)
     \<and> acceleration t' =
         (if \<bar>get_velocity t\<bar> < velocity_threshold t then Some 0
          else case get_acceleration t of Inr a \<Rightarrow> Some a | Inl e \<Rightarrow> None)"
  using assms
  by (auto simp add: detect_gesture_def Let_def get_acceleration_disabled
        split: sum.splits if_splits)

lemma lifted_eq:
  "lifted = (VelocityTracker 3 False 5)\<lparr>velocity := Some 10, acceleration := Some 0\<rparr>"
  by (simp add: lifted_def VelocityTracker_def add_sample_def clear_def detect_gesture_def
        get_velocity_def)

text \<open>
  C9. After a classification that stored velocity 10, a sample of value 0 empties the
  buffer; the next \<open>detect_gesture\<close> returns None from its first check and leaves the
  tracker as it is: the stored velocity is still 10, while the velocity of the empty
  buffer is 0.
\<close>

theorem detect_gesture_lifted_stale:
  "history lifted = [] \<and> velocity lifted = Some 10 \<and> get_velocity lifted = 0
   \<and> detect_gesture lifted = (Inr None, lifted)"
  by (simp add: lifted_eq) (simp add: VelocityTracker_def get_velocity_def detect_gesture_def)

theorem detect_gesture_lifted_stale_witness:
  "length (history lifted) < 2 \<and> velocity lifted = Some 10
   \<and> velocity (snd (detect_gesture lifted)) = Some 10
   \<and> fst (detect_gesture lifted) = Inr None"
  using detect_gesture_lifted_stale by simp

section \<open>The sample history\<close>

lemma detect_gesture_history: "history (snd (detect_gesture t)) = history t"
  by (auto simp add: detect_gesture_def Let_def split: sum.splits prod.splits if_splits)

lemma snd_invoke_detect: "snd (invoke t Detect_gesture) = snd (detect_gesture t)"
  by (auto split: prod.splits sum.splits option.splits)

lemma invoke_detect_history: "history (snd (invoke t Detect_gesture)) = history t"
  by (simp only: snd_invoke_detect detect_gesture_history)

text \<open>
  C10. \<open>get_velocity\<close>, \<open>get_acceleration\<close> and \<open>detect_gesture\<close> leave the history as
  it was, also when they raise; a call that changes the history is \<open>clear\<close> or
  \<open>add_sample\<close>.
\<close>

theorem history_frame:
  "history (snd (invoke t Get_velocity)) = history t
   \<and> history (snd (invoke t Get_acceleration)) = history t
   \<and> history (snd (invoke t Detect_gesture)) = history t
   \<and> history (snd (detect_gesture t)) = history t
   \<and> (\<forall>c. history (snd (invoke t c)) \<noteq> history t \<longrightarrow>
         c = Clear \<or> (\<exists>timestamp val. c = Add_sample timestamp val))"
proof (intro conjI allI impI)
  show "history (snd (invoke t Get_velocity)) = history t" by simp
  show "history (snd (invoke t Get_acceleration)) = history t"
    by (simp split: sum.splits)
  show "history (snd (invoke t Detect_gesture)) = history t"
    by (rule invoke_detect_history)
  show "history (snd (detect_gesture t)) = history t"
    by (rule detect_gesture_history)
next
  fix c assume ch: "history (snd (invoke t c)) \<noteq> history t"
  show "c = Clear \<or> (\<exists>timestamp val. c = Add_sample timestamp val)"
  proof (cases c)
    case Detect_gesture
    with ch invoke_detect_history [of t] show ?thesis by simp
  next
    case Get_acceleration
    with ch show ?thesis by (simp split: sum.splits)
  qed (use ch in simp_all)
qed

theorem history_frame_witness:
  "history (snd (invoke (VelocityTracker 3 False 5\<lparr>history := [(0, 1)]\<rparr>) Clear))
     \<noteq> history (VelocityTracker 3 False 5\<lparr>history := [(0, 1)]\<rparr>)
   \<and> (Clear = Clear \<or> (\<exists>timestamp val. Clear = Add_sample timestamp val))"
  using history_frame [of "VelocityTracker 3 False 5\<lparr>history := [(0, 1)]\<rparr>"]
  by (simp add: clear_def)

lemma max_history_add_sample [simp]: "max_history (add_sample t ts v) = max_history t"
  by (simp add: add_sample_def clear_def Let_def)

lemma max_history_detect [simp]: "max_history (snd (detect_gesture t)) = max_history t"
  by (auto simp add: detect_gesture_def Let_def split: sum.splits prod.splits if_splits)

lemma max_history_invoke [simp]: "max_history (snd (invoke t c)) = max_history t"
proof (cases c)
  case Detect_gesture
  then show ?thesis by (simp only: snd_invoke_detect max_history_detect)
qed (simp_all add: clear_def split: sum.splits)

lemma max_history_invoke_all [simp]: "max_history (invoke_all t cs) = max_history t"
  by (induction cs arbitrary: t) simp_all

lemma add_sample_zero: "history (add_sample t ts 0) = []"
  by (simp add: add_sample_def clear_def)

lemma add_sample_nonzero:
  "v \<noteq> 0 \<Longrightarrow> history (add_sample t ts v) =
     (if int (length (history t)) + 1 > max_history t then tl (history t @ [(ts, v)])
      else history t @ [(ts, v)])"
  by (simp add: add_sample_def Let_def)

lemma buffer_ok_add_sample:
  assumes "0 \<le> max_history t" and "buffer_ok t"
  shows "buffer_ok (add_sample t ts v)"
proof (cases "v = 0")
  case True
  with assms show ?thesis by (simp add: buffer_ok_def add_sample_zero)
next
  case False
  with assms show ?thesis
    by (cases "history t") (auto simp add: buffer_ok_def add_sample_nonzero)
qed

lemma buffer_ok_invoke:
  assumes "0 \<le> max_history t" and "buffer_ok t"
  shows "buffer_ok (snd (invoke t c))"
proof (cases c)
  case (Add_sample ts v)
  with assms show ?thesis by (simp add: buffer_ok_add_sample)
next
  case Detect_gesture
  with assms invoke_detect_history [of t] max_history_invoke [of t c] show ?thesis
    by (simp add: buffer_ok_def)
next
  case Clear
  with assms show ?thesis by (simp add: buffer_ok_def clear_def)
qed (use assms in \<open>simp_all split: sum.splits\<close>)

lemma buffer_ok_invoke_all:
  "0 \<le> max_history t \<Longrightarrow> buffer_ok t \<Longrightarrow> buffer_ok (invoke_all t cs)"
proof (induction cs arbitrary: t)
  case Nil
  then show ?case by simp
next
  case (Cons c cs)
  then show ?case by (simp add: buffer_ok_invoke)
qed

text \<open>
  C3. After any sequence of calls on a new tracker of capacity \<open>history_size \<ge> 0\<close>
  (in particular any sequence of \<open>add_sample\<close> and \<open>clear\<close>): the history is no longer
  than the capacity and holds no sample of value 0; \<open>add_sample\<close> with value 0 and
  \<open>clear\<close> leave it empty; \<open>add_sample\<close> with another value appends the sample and,
  where the length would exceed the capacity, drops exactly the oldest entry.
\<close>

theorem buffer_invariant:
  assumes "0 \<le> history_size"
  shows "int (length (history (invoke_all (VelocityTracker thr en history_size) cs))) \<le> history_size
   \<and> (\<forall>s \<in> set (history (invoke_all (VelocityTracker thr en history_size) cs)). snd s \<noteq> 0)
   \<and> history (add_sample (invoke_all (VelocityTracker thr en history_size) cs) ts 0) = []
   \<and> history (clear (invoke_all (VelocityTracker thr en history_size) cs)) = []
   \<and> (v \<noteq> 0 \<longrightarrow>
        history (add_sample (invoke_all (VelocityTracker thr en history_size) cs) ts v) =
          (if int (length (history (invoke_all (VelocityTracker thr en history_size) cs))) + 1
                > history_size
           then tl (history (invoke_all (VelocityTracker thr en history_size) cs) @ [(ts, v)])
           else history (invoke_all (VelocityTracker thr en history_size) cs) @ [(ts, v)]))"
proof -
  let ?init = "VelocityTracker thr en history_size"
  let ?cur = "invoke_all ?init cs"
  have m0: "max_history ?init = history_size" by (simp add: VelocityTracker_def)
  have ok0: "buffer_ok ?init" using assms by (simp add: buffer_ok_def VelocityTracker_def)
  have m: "max_history ?cur = history_size" using m0 by simp
  have ok: "buffer_ok ?cur" using assms m0 ok0 by (simp add: buffer_ok_invoke_all)
  from ok m show ?thesis
    by (simp add: buffer_ok_def add_sample_zero add_sample_nonzero clear_def)
qed

theorem buffer_invariant_witness:
  "(0::int) \<le> 2
   \<and> history (invoke_all (VelocityTracker 3 False 2) [Add_sample 0 1, Add_sample 1 2, Add_sample 2 3])
       = [(1, 2), (2, 3)]
   \<and> (4::int) \<noteq> 0
   \<and> history (add_sample (invoke_all (VelocityTracker 3 False 2)
         [Add_sample 0 1, Add_sample 1 2, Add_sample 2 3]) 3 4) = [(2, 3), (3, 4)]"
proof -
  have h: "history (invoke_all (VelocityTracker 3 False 2) [Add_sample 0 1, Add_sample 1 2, Add_sample 2 3])
       = [(1, 2), (2, 3)]"
    by (simp add: VelocityTracker_def add_sample_def)
  have z: "(0::int) \<le> 2" by simp
  from buffer_invariant [of 2 3 False "[Add_sample 0 1, Add_sample 1 2, Add_sample 2 3]" 3 4, OF z] h
  show ?thesis by simp
qed

section \<open>The cooldown gate and the dispatch\<close>

lemma loop_body_off_axis:
  "\<not> (ev_type ev = EV_ABS \<and> ev_code ev = axis_code cfg) \<Longrightarrow> loop_body cfg s (ev, clock) = (s, None)"
  by (auto simp add: loop_body_def)

lemma loop_body_on_axis:
  assumes "ev_type ev = EV_ABS" and "ev_code ev = axis_code cfg"
    and "detect_gesture (add_sample (tracker s) (ev_timestamp ev) (ev_value ev)) = (r, tr')"
  shows "loop_body cfg s (ev, clock) =
     (case r of
        Inl e \<Rightarrow> (s\<lparr>tracker := tr'\<rparr>, Some e)
      | Inr None \<Rightarrow> (s\<lparr>tracker := tr'\<rparr>, None)
      | Inr (Some g) \<Rightarrow>
          if clock * 1000 - last_gesture_time s < cooldown_ms cfg then (s\<lparr>tracker := tr'\<rparr>, None)
          else (case gestures cfg g of
                  None \<Rightarrow> (s\<lparr>tracker := tr'\<rparr>, None)
                | Some gc \<Rightarrow>
                    (case action gc of
                       None \<Rightarrow> (s\<lparr>tracker := tr', last_gesture_time := clock * 1000\<rparr>, None)
                     | Some a \<Rightarrow>
                         (s\<lparr>tracker := clear tr', last_gesture_time := clock * 1000,
                            executed := executed s @ [(g, a, clock * 1000)]\<rparr>, None))))"
  using assms by (simp add: loop_body_def Let_def split: sum.splits option.splits)

text \<open>What one iteration does to the log and the gate.\<close>

lemma loop_body_executed:
  "executed (fst (loop_body cfg s (ev, clock))) = executed s
   \<or> (\<exists>g a. executed (fst (loop_body cfg s (ev, clock))) = executed s @ [(g, a, clock * 1000)]
        \<and> last_gesture_time (fst (loop_body cfg s (ev, clock))) = clock * 1000
        \<and> cooldown_ms cfg \<le> clock * 1000 - last_gesture_time s
        \<and> ev_type ev = EV_ABS \<and> ev_code ev = axis_code cfg
        \<and> fst (detect_gesture (add_sample (tracker s) (ev_timestamp ev) (ev_value ev))) = Inr (Some g)
        \<and> (\<exists>gc. gestures cfg g = Some gc \<and> action gc = Some a)
        \<and> history (tracker (fst (loop_body cfg s (ev, clock)))) = [])"
proof (cases "ev_type ev = EV_ABS \<and> ev_code ev = axis_code cfg")
  case False
  then show ?thesis by (simp add: loop_body_off_axis)
next
  case True
  obtain r tr' where d: "detect_gesture (add_sample (tracker s) (ev_timestamp ev) (ev_value ev)) = (r, tr')"
    by (cases "detect_gesture (add_sample (tracker s) (ev_timestamp ev) (ev_value ev))")
  from True d show ?thesis
    by (auto simp add: loop_body_on_axis [where r = r and tr' = tr'] clear_def
          split: sum.splits option.splits)
qed

lemma loop_body_last:
  "last_gesture_time (fst (loop_body cfg s (ev, clock))) = last_gesture_time s
   \<or> (last_gesture_time (fst (loop_body cfg s (ev, clock))) = clock * 1000
        \<and> cooldown_ms cfg \<le> clock * 1000 - last_gesture_time s
        \<and> (\<exists>g gc. fst (detect_gesture (add_sample (tracker s) (ev_timestamp ev) (ev_value ev))) = Inr (Some g)
              \<and> gestures cfg g = Some gc
              \<and> (action gc = None \<or> executed (fst (loop_body cfg s (ev, clock))) \<noteq> executed s)))"
proof (cases "ev_type ev = EV_ABS \<and> ev_code ev = axis_code cfg")
  case False
  then show ?thesis by (simp add: loop_body_off_axis)
next
  case True
  obtain r tr' where d: "detect_gesture (add_sample (tracker s) (ev_timestamp ev) (ev_value ev)) = (r, tr')"
    by (cases "detect_gesture (add_sample (tracker s) (ev_timestamp ev) (ev_value ev))")
  from True d show ?thesis
    by (auto simp add: loop_body_on_axis [where r = r and tr' = tr']
          split: sum.splits option.splits)
qed

lemma validate_config_action:
  "validate_config cfg = [] \<Longrightarrow> gestures cfg g = Some gc \<Longrightarrow> action gc \<noteq> None"
  by (cases g) (auto simp add: validate_config_def split: option.splits if_splits)

lemma gate_inv_loop_body:
  assumes "0 \<le> cooldown_ms cfg" and "gate_inv (cooldown_ms cfg) s"
  shows "gate_inv (cooldown_ms cfg) (fst (loop_body cfg s inp))"
proof -
  obtain ev clock where inp: "inp = (ev, clock)" by (cases inp)
  let ?s' = "fst (loop_body cfg s (ev, clock))"
  from loop_body_executed [of cfg s ev clock]
  consider (same) "executed ?s' = executed s"
    | (more) g a where "executed ?s' = executed s @ [(g, a, clock * 1000)]"
        "last_gesture_time ?s' = clock * 1000"
        "cooldown_ms cfg \<le> clock * 1000 - last_gesture_time s"
    by blast
  then have "gate_inv (cooldown_ms cfg) ?s'"
  proof cases
    case same
    from loop_body_last [of cfg s ev clock]
    have "last_gesture_time s \<le> last_gesture_time ?s'"
      using assms(1) by auto
    with same assms(2) show ?thesis
      by (fastforce simp add: gate_inv_def)
  next
    case more
    with assms show ?thesis
      by (fastforce simp add: gate_inv_def sorted_wrt_append)
  qed
  with inp show ?thesis by simp
qed

lemma gate_inv_read_loop:
  "0 \<le> cooldown_ms cfg \<Longrightarrow> gate_inv (cooldown_ms cfg) s \<Longrightarrow>
     gate_inv (cooldown_ms cfg) (fst (read_loop cfg s inps))"
proof (induction inps arbitrary: s)
  case Nil
  then show ?case by simp
next
  case (Cons inp inps)
  from Cons.prems have step: "gate_inv (cooldown_ms cfg) (fst (loop_body cfg s inp))"
    by (rule gate_inv_loop_body)
  show ?case
  proof (cases "loop_body cfg s inp")
    case (Pair s' err)
    with step Cons show ?thesis
      by (cases err) simp_all
  qed
qed

lemma read_loop_append:
  "read_loop cfg s (xs @ ys) =
     (case read_loop cfg s xs of
        (s', Some e) \<Rightarrow> (s', Some e)
      | (s', None) \<Rightarrow> read_loop cfg s' ys)"
  by (induction xs arbitrary: s) (auto split: prod.splits option.splits)

lemmas run_defs = rise_def axis_event_def up_only_def VelocityTracker_def
        loop_body_def Let_def add_sample_def clear_def detect_gesture_def get_velocity_def
        get_acceleration_def EV_ABS_def ABS_WHEEL_def

lemma rise_run:
  assumes "thr \<le> 1000" and "lg + 300 \<le> (t0 + 0.02) * 1000"
  shows "read_loop up_only
           \<lparr> tracker = (VelocityTracker thr en 5)\<lparr> history := h, velocity := v, acceleration := a \<rparr>,
             last_gesture_time = lg, executed = ex \<rparr> (rise t0) =
     (\<lparr> tracker = (VelocityTracker thr en 5)
          \<lparr> history := [(t0 + 0.03, 37), (t0 + 0.04, 50)],
            velocity := Some 1300, acceleration := Some 0 \<rparr>,
        last_gesture_time = (t0 + 0.02) * 1000,
        executed = ex @ [(Up, Keys [''KEY_UP''], (t0 + 0.02) * 1000)] \<rparr>, None)"
  using assms
  by (simp add: run_defs)





lemma primed_detect:
  "fst (detect_gesture (add_sample (tracker (primed lg)) 1000 20)) = Inr (Some Up)"
  "fst (detect_gesture (add_sample (tracker (primed lg)) 1000 5)) = Inr (Some Down)"
  "history (add_sample (tracker (primed lg)) 1000 v) =
     (if v = 0 then [] else [(999.99, 10), (1000, v)])"
  "last_gesture_time (primed lg) = lg" "executed (primed lg) = []"
  by (simp_all add: primed_def run_defs)

lemma axis_event_on_axis:
  "ev_type (fst (axis_event ts v)) = EV_ABS" "ev_code (fst (axis_event ts v)) = axis_code up_only"
  "ev_timestamp (fst (axis_event ts v)) = ts" "ev_value (fst (axis_event ts v)) = v"
  by (simp_all add: axis_event_def up_only_def)

lemma primed_eq:
  "primed lg =
     \<lparr> tracker = (VelocityTracker 3 False 5)
         \<lparr> history := [(999.99, 10)], velocity := None, acceleration := None \<rparr>,
       last_gesture_time = lg, executed = [] \<rparr>"
  by (simp add: primed_def VelocityTracker_def)

lemma primed_two_rises:
  "executed (fst (read_loop up_only (primed 0) (rise 1000 @ rise 1001))) =
     [(Up, Keys [''KEY_UP''], 1000020), (Up, Keys [''KEY_UP''], 1001020)]"
proof -
  have thr: "(3::real) \<le> 1000" by simp
  have g0: "(0::real) + 300 \<le> (1000 + 0.02) * 1000" by simp
  have g1: "((1000::real) + 0.02) * 1000 + 300 \<le> (1001 + 0.02) * 1000" by simp
  show ?thesis
    by (simp only: primed_eq read_loop_append rise_run [OF thr g0] rise_run [OF thr g1]
          prod.case option.case)
       simp
qed

lemma primed_body:
  "loop_body up_only (primed 0) (fst (axis_event 1000 20), clock) =
     (if clock * 1000 < 300
      then \<lparr> tracker = (VelocityTracker 3 False 5)
                \<lparr> history := [(999.99, 10), (1000, 20)], velocity := Some 1000,
                  acceleration := Some 0 \<rparr>,
             last_gesture_time = 0, executed = [] \<rparr>
      else \<lparr> tracker = (VelocityTracker 3 False 5)
                \<lparr> history := [], velocity := Some 1000, acceleration := Some 0 \<rparr>,
             last_gesture_time = clock * 1000,
             executed = [(Up, Keys [''KEY_UP''], clock * 1000)] \<rparr>, None)"
  by (simp add: primed_def run_defs)

text \<open>
  C6. An iteration calls the action only when \<open>now_ms - last_gesture_time \<ge> cooldown_ms\<close>,
  and then sets \<open>last_gesture_time\<close> to \<open>now_ms\<close>; with a configuration that passed
  \<open>validate_config\<close>, \<open>last_gesture_time\<close> changes only in an iteration that calls the
  action; in a run of the loop with a cooldown that is not negative, any two calls of the
  action are at least \<open>cooldown_ms\<close> apart; with cooldown 300 ms and
  \<open>last_gesture_time = 0\<close>, a qualifying gesture at 250 ms is suppressed and one at
  301 ms is accepted.
\<close>

theorem cooldown_gate:
  fixes cfg :: config and s :: loop_state and ev :: event and clock :: real
    and inps :: "(event \<times> real) list"
  defines "s' \<equiv> fst (loop_body cfg s (ev, clock))"
    and "final \<equiv> fst (read_loop cfg s inps)"
  shows "(executed s' \<noteq> executed s \<longrightarrow>
            cooldown_ms cfg \<le> clock * 1000 - last_gesture_time s
            \<and> last_gesture_time s' = clock * 1000)
     \<and> (validate_config cfg = [] \<longrightarrow> last_gesture_time s' \<noteq> last_gesture_time s \<longrightarrow>
            executed s' \<noteq> executed s)
     \<and> (0 \<le> cooldown_ms cfg \<longrightarrow> executed s = [] \<longrightarrow>
            (\<forall>i j. i < j \<longrightarrow> j < length (executed final) \<longrightarrow>
               cooldown_ms cfg \<le> snd (snd (executed final ! j)) - snd (snd (executed final ! i))))
     \<and> (cooldown_ms cfg = 300 \<longrightarrow> last_gesture_time s = 0 \<longrightarrow>
          ev_type ev = EV_ABS \<longrightarrow> ev_code ev = axis_code cfg \<longrightarrow>
          fst (detect_gesture (add_sample (tracker s) (ev_timestamp ev) (ev_value ev)))
            = Inr (Some g) \<longrightarrow>
          gestures cfg g = Some gc \<longrightarrow> action gc = Some a \<longrightarrow>
            executed (fst (loop_body cfg s (ev, 0.25))) = executed s
            \<and> last_gesture_time (fst (loop_body cfg s (ev, 0.25))) = 0
            \<and> executed (fst (loop_body cfg s (ev, 0.301))) = executed s @ [(g, a, 301)]
            \<and> last_gesture_time (fst (loop_body cfg s (ev, 0.301))) = 301)"
proof (intro conjI impI allI)
  assume "executed s' \<noteq> executed s"
  with loop_body_executed [of cfg s ev clock]
  show "cooldown_ms cfg \<le> clock * 1000 - last_gesture_time s"
    and "last_gesture_time s' = clock * 1000"
    by (auto simp add: s'_def)
next
  assume v: "validate_config cfg = []" and l: "last_gesture_time s' \<noteq> last_gesture_time s"
  from loop_body_last [of cfg s ev clock] l
  obtain g gc where "gestures cfg g = Some gc"
    and "action gc = None \<or> executed s' \<noteq> executed s"
    by (auto simp add: s'_def)
  with validate_config_action [OF v] show "executed s' \<noteq> executed s"
    by blast
next
  fix i j
  assume c: "0 \<le> cooldown_ms cfg" and e: "executed s = []"
    and ij: "i < j" "j < length (executed final)"
  from e have "gate_inv (cooldown_ms cfg) s" by (simp add: gate_inv_def)
  with c have "gate_inv (cooldown_ms cfg) final"
    unfolding final_def by (rule gate_inv_read_loop)
  then have "sorted_wrt (\<lambda>a b. cooldown_ms cfg \<le> snd (snd b) - snd (snd a)) (executed final)"
    by (simp add: gate_inv_def)
  with ij show "cooldown_ms cfg \<le> snd (snd (executed final ! j)) - snd (snd (executed final ! i))"
    by (simp add: sorted_wrt_iff_nth_less)
next
  assume c: "cooldown_ms cfg = 300" and l: "last_gesture_time s = 0"
    and ax: "ev_type ev = EV_ABS" "ev_code ev = axis_code cfg"
    and d: "fst (detect_gesture (add_sample (tracker s) (ev_timestamp ev) (ev_value ev)))
              = Inr (Some g)"
    and g: "gestures cfg g = Some gc" "action gc = Some a"
  obtain tr' where d': "detect_gesture (add_sample (tracker s) (ev_timestamp ev) (ev_value ev))
      = (Inr (Some g), tr')"
    using d by (cases "detect_gesture (add_sample (tracker s) (ev_timestamp ev) (ev_value ev))") simp
  note body = loop_body_on_axis [OF ax d']
  show "executed (fst (loop_body cfg s (ev, 0.25))) = executed s"
    and "last_gesture_time (fst (loop_body cfg s (ev, 0.25))) = 0"
    and "executed (fst (loop_body cfg s (ev, 0.301))) = executed s @ [(g, a, 301)]"
    and "last_gesture_time (fst (loop_body cfg s (ev, 0.301))) = 301"
    by (simp_all add: body c l g)
qed

theorem cooldown_gate_witness:
  "validate_config up_only = [] \<and> 0 \<le> cooldown_ms up_only \<and> cooldown_ms up_only = 300
   \<and> executed (primed 0) = [] \<and> last_gesture_time (primed 0) = 0
   \<and> executed (fst (loop_body up_only (primed 0) (fst (axis_event 1000 20), 1000)))
        \<noteq> executed (primed 0)
   \<and> last_gesture_time (fst (loop_body up_only (primed 0) (fst (axis_event 1000 20), 1000)))
        \<noteq> last_gesture_time (primed 0)
   \<and> cooldown_ms up_only \<le> 1000 * 1000 - last_gesture_time (primed 0)
   \<and> (0::nat) < 1
   \<and> 1 < length (executed (fst (read_loop up_only (primed 0) (rise 1000 @ rise 1001))))
   \<and> cooldown_ms up_only
        \<le> snd (snd (executed (fst (read_loop up_only (primed 0) (rise 1000 @ rise 1001))) ! 1))
          - snd (snd (executed (fst (read_loop up_only (primed 0) (rise 1000 @ rise 1001))) ! 0))
   \<and> fst (detect_gesture (add_sample (tracker (primed 0)) 1000 20)) = Inr (Some Up)
   \<and> executed (fst (loop_body up_only (primed 0) (fst (axis_event 1000 20), 0.25))) = []
   \<and> executed (fst (loop_body up_only (primed 0) (fst (axis_event 1000 20), 0.301)))
        = [(Up, Keys [''KEY_UP''], 301)]"
proof -
  have cfg: "validate_config up_only = []" "cooldown_ms up_only = 300"
    "gestures up_only Up = Some \<lparr>action = Some (Keys [''KEY_UP''])\<rparr>"
    by (simp_all add: up_only_def validate_config_def)
  note inst = cooldown_gate
         [where cfg = up_only and s = "primed 0" and ev = "fst (axis_event 1000 20)"
            and clock = 1000 and inps = "rise 1000 @ rise 1001" and g = Up
            and gc = "\<lparr>action = Some (Keys [''KEY_UP''])\<rparr>" and a = "Keys [''KEY_UP'']"]
  from inst show ?thesis
    by (simp add: cfg primed_detect axis_event_on_axis primed_two_rises primed_body)
qed

text \<open>
  C7. In an iteration on an event of the configured axis, the history after the iteration
  is the history after \<open>add_sample\<close>, unless the action was called, and then it is
  empty: a gesture suppressed by the cooldown, and a gesture with no configured action,
  leave the history and the log of calls as they are; a gesture that passes the cooldown
  and has an action is logged and the buffer cleared.
\<close>

theorem buffer_cleared_only_on_action:
  fixes cfg :: config and s :: loop_state and ev :: event and clock :: real
  defines "sampled \<equiv> add_sample (tracker s) (ev_timestamp ev) (ev_value ev)"
    and "s' \<equiv> fst (loop_body cfg s (ev, clock))"
  assumes "ev_type ev = EV_ABS" and "ev_code ev = axis_code cfg"
  shows "history (tracker s') = (if executed s' \<noteq> executed s then [] else history sampled)
     \<and> (fst (detect_gesture sampled) = Inr (Some g) \<longrightarrow>
          clock * 1000 - last_gesture_time s < cooldown_ms cfg \<longrightarrow>
            history (tracker s') = history sampled \<and> executed s' = executed s)
     \<and> (fst (detect_gesture sampled) = Inr (Some g) \<longrightarrow>
          gestures cfg g = None \<or> (\<exists>gc. gestures cfg g = Some gc \<and> action gc = None) \<longrightarrow>
            history (tracker s') = history sampled \<and> executed s' = executed s)
     \<and> (fst (detect_gesture sampled) = Inr (Some g) \<longrightarrow>
          \<not> clock * 1000 - last_gesture_time s < cooldown_ms cfg \<longrightarrow>
          gestures cfg g = Some gc \<longrightarrow> action gc = Some a \<longrightarrow>
            history (tracker s') = [] \<and> executed s' = executed s @ [(g, a, clock * 1000)])"
proof -
  obtain r tr' where d: "detect_gesture sampled = (r, tr')"
    by (cases "detect_gesture sampled")
  then have h: "history tr' = history sampled"
    using detect_gesture_history [of sampled] by simp
  note body = loop_body_on_axis [OF assms(3,4) d [unfolded sampled_def], of clock]
  from h d show ?thesis
    unfolding s'_def body
    by (auto simp add: clear_def split: sum.splits option.splits)
qed

theorem buffer_cleared_only_on_action_witness:
  "ev_type (fst (axis_event 1000 20)) = EV_ABS
   \<and> ev_code (fst (axis_event 1000 20)) = axis_code up_only
   \<and> fst (detect_gesture (add_sample (tracker (primed 999900)) 1000 20)) = Inr (Some Up)
   \<and> 1000 * 1000 - last_gesture_time (primed 999900) < cooldown_ms up_only
   \<and> history (tracker (fst (loop_body up_only (primed 999900)
         (fst (axis_event 1000 20), 1000)))) = [(999.99, 10), (1000, 20)]
   \<and> fst (detect_gesture (add_sample (tracker (primed 0)) 1000 5)) = Inr (Some Down)
   \<and> gestures up_only Down = None
   \<and> history (tracker (fst (loop_body up_only (primed 0) (fst (axis_event 1000 5), 1000))))
        = [(999.99, 10), (1000, 5)]
   \<and> fst (detect_gesture (add_sample (tracker (primed 0)) 1000 20)) = Inr (Some Up)
   \<and> \<not> 1000 * 1000 - last_gesture_time (primed 0) < cooldown_ms up_only
   \<and> gestures up_only Up = Some \<lparr>action = Some (Keys [''KEY_UP''])\<rparr>
   \<and> history (tracker (fst (loop_body up_only (primed 0) (fst (axis_event 1000 20), 1000)))) = []
   \<and> executed (fst (loop_body up_only (primed 0) (fst (axis_event 1000 20), 1000)))
        \<noteq> executed (primed 0)"
proof -
  note ax = axis_event_on_axis
  have cd: "cooldown_ms up_only = 300" and gd: "gestures up_only Down = None"
    and gu: "gestures up_only Up = Some \<lparr>action = Some (Keys [''KEY_UP''])\<rparr>"
    by (simp_all add: up_only_def)
  from buffer_cleared_only_on_action
         [where cfg = up_only and ev = "fst (axis_event 1000 20)"
            and s = "primed 999900" and clock = 1000 and g = Up,
          OF ax(1,2)]
  have a: "history (tracker (fst (loop_body up_only (primed 999900)
         (fst (axis_event 1000 20), 1000)))) = [(999.99, 10), (1000, 20)]"
    by (simp add: ax primed_detect cd)
  from buffer_cleared_only_on_action [where cfg = up_only and ev = "fst (axis_event 1000 5)"
            and s = "primed 0" and clock = 1000 and g = Down, OF ax(1,2)]
  have b: "history (tracker (fst (loop_body up_only (primed 0) (fst (axis_event 1000 5), 1000))))
        = [(999.99, 10), (1000, 5)]"
    by (simp add: ax primed_detect gd)
  from buffer_cleared_only_on_action
         [where cfg = up_only and ev = "fst (axis_event 1000 20)"
            and s = "primed 0" and clock = 1000 and g = Up
            and gc = "\<lparr>action = Some (Keys [''KEY_UP''])\<rparr>" and a = "Keys [''KEY_UP'']",
          OF ax(1,2)]
  have c: "history (tracker (fst (loop_body up_only (primed 0) (fst (axis_event 1000 20), 1000)))) = []
     \<and> executed (fst (loop_body up_only (primed 0) (fst (axis_event 1000 20), 1000)))
        \<noteq> executed (primed 0)"
    by (simp add: ax primed_detect cd gu)
  from a b c show ?thesis
    by (simp add: ax primed_detect cd gd gu)
qed

section \<open>End to end\<close>




end
